theory Spec2Isabelle
  imports Complex_Main
begin

section \<open>The notebook: specifications and architecture\<close>

text \<open>
  The cells of \<^verbatim>\<open>06_SystemSizingCodeOptimization-Reference.ipynb\<close> that fix the mission
  and the architecture. Python floats are modelled as reals: the development compares
  and adds decimal literals only, no rounding is modelled.
\<close>

definition M_pay :: real where
  "M_pay = 100"

definition MTOW :: real where
  "MTOW = 360"

definition N_arm :: nat where
  "N_arm = 4"

definition N_pro_arm :: nat where
  "N_pro_arm = 2"

definition N_pro :: nat where
  "N_pro = N_pro_arm * N_arm"

section \<open>The notebook: optimisation variables\<close>

type_synonym vec = "real list"

definition beta_pro :: real where
  "beta_pro = 0.33"

definition k_os :: real where
  "k_os = 3.2"

definition k_ND :: real where
  "k_ND = 1.2"

definition k_mot :: real where
  "k_mot = 1"

definition k_speed_mot :: real where
  "k_speed_mot = 1.2"

definition k_mb :: real where
  "k_mb = 1"

definition k_vb :: real where
  "k_vb = 1"

definition k_D :: real where
  "k_D = 0.01"

text \<open>\<^verbatim>\<open>parameters = scipy.array((beta_pro, k_os, k_ND,k_mot, k_speed_mot, k_mb, k_vb,k_D,))\<close>\<close>

definition parameters :: vec where
  "parameters = [beta_pro, k_os, k_ND, k_mot, k_speed_mot, k_mb, k_vb, k_D]"

section \<open>The notebook: calls, solvers and the trace of a run\<close>

text \<open>
  The three lambdas of the optimisation cell all have the shape
  \<^verbatim>\<open>lambda x: sizing_code(x, TAG)\<close>; a callable is that closure, named by its tag.
\<close>

datatype callable = Sizing_lambda string

definition contrainte :: callable where
  "contrainte = Sizing_lambda ''Const''"

definition objectif :: callable where
  "objectif = Sizing_lambda ''Obj''"

definition objectifP :: callable where
  "objectifP = Sizing_lambda ''ObjP''"


text \<open>\<^verbatim>\<open>bounds = [(0.3,0.6), (1,400), (1,100), (1,100), (1,400), (0.1,100), (1,5), (0.1,0.99)]\<close>\<close>

definition bounds :: "(real \<times> real) list" where
  "bounds = [(0.3, 0.6), (1, 400), (1, 100), (1, 100), (1, 400), (0.1, 100), (1, 5), (0.1, 0.99)]"

text \<open>
  A call of a scipy solver is its keyword arguments, in the order written. A keyword that
  the call does not write is absent from the list.
\<close>

datatype arg =
    Callable callable
  | Array vec
  | Bounds "(real \<times> real) list"
  | Float real
  | Integer int

type_synonym kwargs = "(string \<times> arg) list"

definition slsqp_kwargs :: kwargs where
  "slsqp_kwargs =
     [(''func'', Callable objectif), (''x0'', Array parameters), (''bounds'', Bounds bounds),
      (''f_ieqcons'', Callable contrainte), (''iter'', Integer 1500), (''acc'', Float (1 / 10 ^ 12))]"

definition de_kwargs :: kwargs where
  "de_kwargs =
     [(''func'', Callable objectifP), (''bounds'', Bounds bounds), (''tol'', Float (1 / 10 ^ 12))]"

text \<open>
  The solvers are scipy's, not the repository's: what a solver does with a call is a
  parameter of the model. A run of a solver is the list of its probes (the keyword of the
  callable it invokes and the vector it invokes it on, in order) and the value it returns:
  an array for \<^verbatim>\<open>fmin_slsqp\<close>, an \<^verbatim>\<open>OptimizeResult\<close> with its field \<^verbatim>\<open>x\<close> for
  \<^verbatim>\<open>differential_evolution\<close>.
\<close>

record 'r solver_run =
  probes :: "(string \<times> vec) list"
  returned :: 'r

record optimize_result =
  result_x :: vec
  result_fun :: real

record scipy_optimize =
  fmin_slsqp :: "kwargs \<Rightarrow> vec solver_run"
  differential_evolution :: "kwargs \<Rightarrow> optimize_result solver_run"

text \<open>
  What a run of the notebook does, in order: a \<^verbatim>\<open>print\<close>, a call
  \<^verbatim>\<open>sizing_code(vector, tag)\<close>, or the entry into a scipy solver.
\<close>

datatype event =
    Print string
  | Sizing_code vec string
  | Scipy string kwargs

text \<open>A probe of the solver invokes the lambda passed under that keyword.\<close>

fun probe_events :: "kwargs \<Rightarrow> (string \<times> vec) list \<Rightarrow> event list" where
  "probe_events kw [] = []"
| "probe_events kw ((k, v) # ps) =
     (case map_of kw k of
        Some (Callable (Sizing_lambda tag)) \<Rightarrow> Sizing_code v tag # probe_events kw ps
      | _ \<Rightarrow> probe_events kw ps)"

definition banner :: string where
  "banner = ''-----------------------------------------------''"

text \<open>The cell "Initial characteristics before optimization".\<close>

definition initial_report :: "event list" where
  "initial_report =
     [Print banner, Print ''Initial characteristics before optimization :'',
      Sizing_code parameters ''Prt'', Print banner]"

text \<open>
  The optimisation cell, first half: the branch on the flag, up to the assignment of
  \<^verbatim>\<open>result\<close>. The events are the solver call and the evaluator calls the solver makes.
\<close>

definition search :: "bool \<Rightarrow> scipy_optimize \<Rightarrow> event list" where
  "search flag sp =
     (if flag = True
      then Scipy ''fmin_slsqp'' slsqp_kwargs
             # probe_events slsqp_kwargs (probes (fmin_slsqp sp slsqp_kwargs))
      else Scipy ''differential_evolution'' de_kwargs
             # probe_events de_kwargs (probes (differential_evolution sp de_kwargs)))"



definition final_report :: "bool \<Rightarrow> scipy_optimize \<Rightarrow> event list" where
  "final_report flag sp =
     [Print banner, Print ''Final characteristics after optimization :'']
     @ (if flag = True
        then [Sizing_code (returned (fmin_slsqp sp slsqp_kwargs)) ''Obj'',
              Sizing_code (returned (fmin_slsqp sp slsqp_kwargs)) ''Prt'']
        else [Sizing_code (result_x (returned (differential_evolution sp de_kwargs))) ''Obj'',
              Sizing_code (result_x (returned (differential_evolution sp de_kwargs))) ''Prt''])
     @ [Print banner]"

definition notebook :: "bool \<Rightarrow> scipy_optimize \<Rightarrow> event list" where
  "notebook flag sp = initial_report @ search flag sp @ final_report flag sp"

text \<open>Projections of a trace: the evaluator calls, their tags, their vectors, the solver calls.\<close>

fun evaluator_calls :: "event list \<Rightarrow> (vec \<times> string) list" where
  "evaluator_calls [] = []"
| "evaluator_calls (Sizing_code v tag # es) = (v, tag) # evaluator_calls es"
| "evaluator_calls (_ # es) = evaluator_calls es"

fun scipy_calls :: "event list \<Rightarrow> (string \<times> kwargs) list" where
  "scipy_calls [] = []"
| "scipy_calls (Scipy name kw # es) = (name, kw) # scipy_calls es"
| "scipy_calls (_ # es) = scipy_calls es"

text \<open>The tags a solver call hands over inside its lambdas.\<close>

fun kwargs_tags :: "kwargs \<Rightarrow> string list" where
  "kwargs_tags [] = []"
| "kwargs_tags ((k, Callable (Sizing_lambda tag)) # kw) = tag # kwargs_tags kw"
| "kwargs_tags (_ # kw) = kwargs_tags kw"

text \<open>Every mode tag a run uses: in a direct call, or inside a lambda given to a solver.\<close>

definition mode_tags :: "event list \<Rightarrow> string set" where
  "mode_tags es =
     set (map snd (evaluator_calls es)) \<union> set (concat (map (kwargs_tags \<circ> snd) (scipy_calls es)))"

text \<open>A vector is within a bounds table: same length, each entry between its pair.\<close>

fun within_bounds :: "(real \<times> real) list \<Rightarrow> vec \<Rightarrow> bool" where
  "within_bounds [] [] = True"
| "within_bounds ((lo, hi) # bs) (v # vs) = (lo \<le> v \<and> v \<le> hi \<and> within_bounds bs vs)"
| "within_bounds _ _ = False"

text \<open>
  A solver for the concrete runs below: it probes its objective at the lower and at the
  upper corner of the bounds it is given, and returns the lower corner.
\<close>

definition corner_probes :: "kwargs \<Rightarrow> (string \<times> vec) list" where
  "corner_probes kw =
     (case map_of kw ''bounds'' of
        Some (Bounds bs) \<Rightarrow> [(''func'', map fst bs), (''func'', map snd bs)]
      | _ \<Rightarrow> [])"

definition lower_corner :: "kwargs \<Rightarrow> vec" where
  "lower_corner kw = (case map_of kw ''bounds'' of Some (Bounds bs) \<Rightarrow> map fst bs | _ \<Rightarrow> [])"

definition corner_scipy :: scipy_optimize where
  "corner_scipy =
     \<lparr>fmin_slsqp = (\<lambda>kw. \<lparr>probes = corner_probes kw, returned = lower_corner kw\<rparr>),
      differential_evolution =
        (\<lambda>kw. \<lparr>probes = corner_probes kw,
               returned = \<lparr>result_x = lower_corner kw, result_fun = 0\<rparr>\<rparr>)\<rparr>"

section \<open>The evaluator behind \<^verbatim>\<open>sizing_code\<close>\<close>

text \<open>
  The notebook loads the evaluator with \<^verbatim>\<open>serializer.load_model\<close>: its code is not among
  the sources. The definitions of this section follow the specification's description of
  it (sections 4.1 to 4.5 and 7). The scaling-law pass, the constraint functions, the
  penalty weight, the tolerance and the iteration cap are given there by contract or by
  example only; they are the fields of \<open>sizing_model\<close>.
\<close>

text \<open>
  Modelled from the spec: the four output modes of the entry point, under the names the
  specification gives them (section 4.5), and the error taxonomy (section 7).
\<close>

datatype mode = Obj | ObjP | Const | Report

datatype error = InvalidParameter | LoopDivergence | BoundViolation | ModelNotFound

text \<open>
  Modelled from the spec: the DesignPoint, cut down to the total mass, the thrust per
  propeller that it was sized for, the number of sizing passes run, and whether the loop
  met its tolerance (when it did not, the call is degraded: a LoopDivergence condition).
\<close>

record design_point =
  total_mass :: real
  thrust :: real
  iterations :: nat
  converged :: bool

text \<open>
  Modelled from the spec: what a call returns: a scalar for the two objectives, the
  ConstraintVector, or what the Reporter is handed (design point and margins).
\<close>

datatype outcome = Scalar real | Margins "real list" | Summary design_point "real list"

text \<open>
  Modelled from the spec: the parts of the SizingModel that the specification leaves open.
  \<open>size_from_thrust\<close> is one pass of the ScalingLawLibrary (coefficients and thrust per
  propeller to the summed total mass; \<open>None\<close> is InvalidParameter), \<open>margins\<close> is the
  ConstraintSet.
\<close>

record sizing_model =
  size_from_thrust :: "vec \<Rightarrow> real \<Rightarrow> real option"
  margins :: "vec \<Rightarrow> design_point \<Rightarrow> real list"
  penalty_weight :: real
  tolerance :: real
  max_iterations :: nat

text \<open>
  Modelled from the spec: the BoundViolation policy, "clamp before evaluation". Each entry
  is moved to the nearer end of its pair.
\<close>

fun clamp :: "(real \<times> real) list \<Rightarrow> vec \<Rightarrow> vec" where
  "clamp ((lo, hi) # bs) (v # vs) = max lo (min hi v) # clamp bs vs"
| "clamp [] vs = vs"
| "clamp bs [] = []"

text \<open>
  Modelled from the spec: the hover thrust per propeller required by a total mass and the
  propeller count (the weight shared among the propellers).
\<close>

definition hover_thrust :: "real \<Rightarrow> real" where
  "hover_thrust m = m * 9.81 / real N_pro"

text \<open>
  Modelled from the spec: the LoopResolver. From the current total mass: thrust, one sizing
  pass, the new total; stop when the relative change is below the tolerance, or when the
  cap is reached, and then return the last iterate. The first number is the passes left,
  the second the passes run.
\<close>

fun loop_resolver :: "(real \<Rightarrow> real option) \<Rightarrow> real \<Rightarrow> nat \<Rightarrow> nat \<Rightarrow> real \<Rightarrow> error + design_point" where
  "loop_resolver pass tol 0 k m =
     Inr \<lparr>total_mass = m, thrust = hover_thrust m, iterations = k, converged = False\<rparr>"
| "loop_resolver pass tol (Suc n) k m =
     (case pass (hover_thrust m) of
        None \<Rightarrow> Inl InvalidParameter
      | Some m' \<Rightarrow>
          if \<bar>m' - m\<bar> / \<bar>m\<bar> < tol
          then Inr \<lparr>total_mass = m', thrust = hover_thrust m, iterations = Suc k, converged = True\<rparr>
          else loop_resolver pass tol n (Suc k) m')"

text \<open>
  Modelled from the spec: the first half of \<open>evaluate\<close>: clamp the coefficients, then run
  the LoopResolver from the guess \<open>k_os \<times> payload mass\<close>. A vector that is not eight
  entries long has no \<open>k_os\<close>: InvalidParameter.
\<close>

definition resolve :: "sizing_model \<Rightarrow> vec \<Rightarrow> error + design_point" where
  "resolve M c =
     (case clamp bounds c of
        [b, os, nd, mot, speed, mb, vb, d] \<Rightarrow>
          loop_resolver (size_from_thrust M (clamp bounds c)) (tolerance M) (max_iterations M) 0
            (os * M_pay)
      | _ \<Rightarrow> Inl InvalidParameter)"

text \<open>
  Modelled from the spec: the penalised objective, "total mass plus a large multiplier
  times the sum of squared negative constraint margins".
\<close>

definition penalty :: "real \<Rightarrow> real list \<Rightarrow> real" where
  "penalty w ms = w * sum_list (map (\<lambda>x. (min x 0)\<^sup>2) ms)"

text \<open>Modelled from the spec: the sign convention of the margins, "\<ge> 0 means satisfied".\<close>

definition feasible :: "real list \<Rightarrow> bool" where
  "feasible ms = list_all (\<lambda>x. 0 \<le> x) ms"

text \<open>Modelled from the spec: the single entry point and its dispatch on the mode.\<close>

definition evaluate :: "sizing_model \<Rightarrow> vec \<Rightarrow> mode \<Rightarrow> error + outcome" where
  "evaluate M c md =
     (case resolve M c of
        Inl e \<Rightarrow> Inl e
      | Inr dp \<Rightarrow>
          (case md of
             Obj \<Rightarrow> Inr (Scalar (total_mass dp))
           | ObjP \<Rightarrow>
               Inr (Scalar (total_mass dp
                              + penalty (penalty_weight M) (margins M (clamp bounds c) dp)))
           | Const \<Rightarrow> Inr (Margins (margins M (clamp bounds c) dp))
           | Report \<Rightarrow> Inr (Summary dp (margins M (clamp bounds c) dp))))"




text \<open>
  A sizing model for the concrete runs below: the payload, a battery of \<open>k_mb\<close> times the
  payload, and a propulsion mass of 0.05 kg per newton of thrust on each propeller; one
  margin, the mass budget; tolerance one tenth, cap 100.
\<close>

definition sample_model :: sizing_model where
  "sample_model =
     \<lparr>size_from_thrust =
        (\<lambda>c T. if T \<le> 0 then None else Some (M_pay + c ! 5 * M_pay + 0.05 * real N_pro * T)),
      margins = (\<lambda>c dp. [MTOW - total_mass dp]),
      penalty_weight = 10 ^ 9,
      tolerance = 1 / 10,
      max_iterations = 100\<rparr>"

section \<open>Properties of the driver\<close>

lemma evaluator_calls_append:
  "evaluator_calls (es @ fs) = evaluator_calls es @ evaluator_calls fs"
  by (induction es rule: evaluator_calls.induct) simp_all

lemma scipy_calls_append:
  "scipy_calls (es @ fs) = scipy_calls es @ scipy_calls fs"
  by (induction es rule: scipy_calls.induct) simp_all

lemma scipy_calls_probe_events [simp]:
  "scipy_calls (probe_events kw ps) = []"
  by (induction kw ps rule: probe_events.induct)
     (simp_all split: option.splits arg.splits callable.splits)

lemma map_of_kwargs_tags:
  "map_of kw k = Some (Callable (Sizing_lambda tag)) \<Longrightarrow> tag \<in> set (kwargs_tags kw)"
  by (induction kw rule: kwargs_tags.induct) (auto split: if_splits)

lemma probe_events_tags:
  "set (map snd (evaluator_calls (probe_events kw ps))) \<subseteq> set (kwargs_tags kw)"
  by (induction kw ps rule: probe_events.induct)
     (auto split: option.splits arg.splits callable.splits dest: map_of_kwargs_tags)


lemma kwargs_tags_slsqp: "kwargs_tags slsqp_kwargs = [''Obj'', ''Const'']"
  by (simp add: slsqp_kwargs_def objectif_def contrainte_def)

lemma kwargs_tags_de: "kwargs_tags de_kwargs = [''ObjP'']"
  by (simp add: de_kwargs_def objectifP_def)

lemma mode_tags_append: "mode_tags (es @ fs) = mode_tags es \<union> mode_tags fs"
  by (auto simp: mode_tags_def evaluator_calls_append scipy_calls_append)

lemma mode_tags_initial_report: "mode_tags initial_report = {''Prt''}"
  by (simp add: mode_tags_def initial_report_def)

lemma mode_tags_final_report: "mode_tags (final_report flag sp) = {''Obj'', ''Prt''}"
  by (simp add: mode_tags_def final_report_def)

lemma mode_tags_search_True: "mode_tags (search True sp) = {''Obj'', ''Const''}"
  using probe_events_tags [of slsqp_kwargs "probes (fmin_slsqp sp slsqp_kwargs)"]
  by (auto simp: mode_tags_def search_def kwargs_tags_slsqp)

lemma mode_tags_search_False: "mode_tags (search False sp) = {''ObjP''}"
  using probe_events_tags [of de_kwargs "probes (differential_evolution sp de_kwargs)"]
  by (auto simp: mode_tags_def search_def kwargs_tags_de)

lemma mode_tags_notebook_True: "mode_tags (notebook True sp) = {''Prt'', ''Obj'', ''Const''}"
  by (auto simp: notebook_def mode_tags_append mode_tags_initial_report
      mode_tags_final_report mode_tags_search_True)

lemma mode_tags_notebook_False: "mode_tags (notebook False sp) = {''Prt'', ''ObjP'', ''Obj''}"
  by (auto simp: notebook_def mode_tags_append mode_tags_initial_report
      mode_tags_final_report mode_tags_search_False)

subsection \<open>The mode tags of the entry point\<close>

text \<open>
  Claim C2, as the notebook has it. Every evaluation goes through the one callable
  \<^verbatim>\<open>sizing_code(vector, tag)\<close>. Over both strategies and whatever the solver probes, the
  tags that reach it are exactly \<^verbatim>\<open>'Obj'\<close>, \<^verbatim>\<open>'ObjP'\<close>, \<^verbatim>\<open>'Const'\<close> and \<^verbatim>\<open>'Prt'\<close>; the
  call that prints the report, before and after the search, carries the tag \<^verbatim>\<open>'Prt'\<close>.
\<close>

theorem notebook_mode_tags:
  "mode_tags (notebook True sp) \<union> mode_tags (notebook False sp)
     = {''Obj'', ''ObjP'', ''Const'', ''Prt''}
   \<and> map snd (evaluator_calls initial_report) = [''Prt'']
   \<and> map snd (evaluator_calls (final_report flag sp)) = [''Obj'', ''Prt'']"
proof -
  have "map snd (evaluator_calls initial_report) = [''Prt'']"
    by (simp add: initial_report_def)
  moreover have "map snd (evaluator_calls (final_report flag sp)) = [''Obj'', ''Prt'']"
    by (simp add: final_report_def)
  ultimately show ?thesis
    by (auto simp: mode_tags_notebook_True mode_tags_notebook_False)
qed

text \<open>
  The claim as written names the report tag \<^verbatim>\<open>Report\<close>. No run passes that tag: with the
  corner solver, neither strategy does, and the report is asked for with \<^verbatim>\<open>'Prt'\<close>.
\<close>

theorem report_tag_counterexample:
  "''Report'' \<notin> mode_tags (notebook True corner_scipy) \<union> mode_tags (notebook False corner_scipy)
   \<and> evaluator_calls initial_report = [(parameters, ''Prt'')]"
  by (simp add: mode_tags_notebook_True mode_tags_notebook_False initial_report_def)

subsection \<open>The vectors that reach the evaluator\<close>




lemma parameters_below_bounds: "\<not> within_bounds bounds parameters"
  by (simp add: bounds_def parameters_def k_D_def)









subsection \<open>The two strategies\<close>

lemma scipy_calls_notebook:
  "scipy_calls (notebook flag sp) =
     [if flag then (''fmin_slsqp'', slsqp_kwargs) else (''differential_evolution'', de_kwargs)]"
  by (simp add: notebook_def scipy_calls_append initial_report_def search_def final_report_def)

lemma search_tags_True:
  "set (map snd (evaluator_calls (search True sp))) \<subseteq> {''Obj'', ''Const''}"
  using probe_events_tags [of slsqp_kwargs "probes (fmin_slsqp sp slsqp_kwargs)"]
  by (simp add: search_def kwargs_tags_slsqp)

lemma search_tags_False:
  "set (map snd (evaluator_calls (search False sp))) \<subseteq> {''ObjP''}"
  using probe_events_tags [of de_kwargs "probes (differential_evolution sp de_kwargs)"]
  by (simp add: search_def kwargs_tags_de)

text \<open>
  Claim C5. With the flag set, the one solver call of a run is \<^verbatim>\<open>fmin_slsqp\<close> (sequential
  least squares programming), with the lambda of mode \<^verbatim>\<open>'Obj'\<close> as objective, the initial
  vector as starting point, the bounds table, and the lambda of mode \<^verbatim>\<open>'Const'\<close> under
  \<^verbatim>\<open>f_ieqcons\<close>, scipy's keyword for inequality constraints that hold when non-negative.
  No equality constraint and no derivative (\<^verbatim>\<open>fprime\<close>, \<^verbatim>\<open>fprime_ieqcons\<close>) is passed,
  which leaves the gradients to the solver's finite differences. Whatever the solver
  probes, the evaluator is called in the modes \<^verbatim>\<open>'Obj'\<close> and \<^verbatim>\<open>'Const'\<close> only.
\<close>

theorem gradient_strategy_call:
  "scipy_calls (notebook True sp) = [(''fmin_slsqp'', slsqp_kwargs)]
   \<and> map fst slsqp_kwargs = [''func'', ''x0'', ''bounds'', ''f_ieqcons'', ''iter'', ''acc'']
   \<and> map_of slsqp_kwargs ''func'' = Some (Callable (Sizing_lambda ''Obj''))
   \<and> map_of slsqp_kwargs ''x0'' = Some (Array parameters)
   \<and> map_of slsqp_kwargs ''bounds'' = Some (Bounds bounds)
   \<and> map_of slsqp_kwargs ''f_ieqcons'' = Some (Callable (Sizing_lambda ''Const''))
   \<and> map_of slsqp_kwargs ''f_eqcons'' = None
   \<and> map_of slsqp_kwargs ''fprime'' = None
   \<and> map_of slsqp_kwargs ''fprime_ieqcons'' = None
   \<and> set (map snd (evaluator_calls (search True sp))) \<subseteq> {''Obj'', ''Const''}"
proof -
  have "scipy_calls (notebook True sp) = [(''fmin_slsqp'', slsqp_kwargs)]"
    by (simp add: scipy_calls_notebook)
  moreover have "map fst slsqp_kwargs = [''func'', ''x0'', ''bounds'', ''f_ieqcons'', ''iter'', ''acc'']"
    by (simp add: slsqp_kwargs_def)
  moreover have "map_of slsqp_kwargs ''func'' = Some (Callable (Sizing_lambda ''Obj''))"
    by (simp add: slsqp_kwargs_def objectif_def)
  moreover have "map_of slsqp_kwargs ''x0'' = Some (Array parameters)"
    by (simp add: slsqp_kwargs_def)
  moreover have "map_of slsqp_kwargs ''bounds'' = Some (Bounds bounds)"
    by (simp add: slsqp_kwargs_def)
  moreover have "map_of slsqp_kwargs ''f_ieqcons'' = Some (Callable (Sizing_lambda ''Const''))"
    by (simp add: slsqp_kwargs_def contrainte_def)
  moreover have "map_of slsqp_kwargs ''f_eqcons'' = None"
    by (simp add: slsqp_kwargs_def)
  moreover have "map_of slsqp_kwargs ''fprime'' = None"
    by (simp add: slsqp_kwargs_def)
  moreover have "map_of slsqp_kwargs ''fprime_ieqcons'' = None"
    by (simp add: slsqp_kwargs_def)
  ultimately show ?thesis
    using search_tags_True [of sp] by simp
qed

text \<open>
  Claim C6. With the flag unset, the one solver call of a run is
  \<^verbatim>\<open>differential_evolution\<close>, and its keywords are the objective, the bounds and the
  tolerance, nothing else: the objective is the lambda of mode \<^verbatim>\<open>'ObjP'\<close>, the only lambda
  in the call; there is no starting point, no constraint and no derivative. Whatever the
  solver probes, the evaluator is called in mode \<^verbatim>\<open>'ObjP'\<close> only.
\<close>

theorem stochastic_strategy_call:
  "scipy_calls (notebook False sp) = [(''differential_evolution'', de_kwargs)]
   \<and> map fst de_kwargs = [''func'', ''bounds'', ''tol'']
   \<and> map_of de_kwargs ''func'' = Some (Callable (Sizing_lambda ''ObjP''))
   \<and> map_of de_kwargs ''bounds'' = Some (Bounds bounds)
   \<and> map_of de_kwargs ''x0'' = None
   \<and> map_of de_kwargs ''constraints'' = None
   \<and> map_of de_kwargs ''jac'' = None
   \<and> kwargs_tags de_kwargs = [''ObjP'']
   \<and> set (map snd (evaluator_calls (search False sp))) \<subseteq> {''ObjP''}"
proof -
  have "scipy_calls (notebook False sp) = [(''differential_evolution'', de_kwargs)]"
    by (simp add: scipy_calls_notebook)
  moreover have "map fst de_kwargs = [''func'', ''bounds'', ''tol'']"
    by (simp add: de_kwargs_def)
  moreover have "map_of de_kwargs ''func'' = Some (Callable (Sizing_lambda ''ObjP''))"
    by (simp add: de_kwargs_def objectifP_def)
  moreover have "map_of de_kwargs ''bounds'' = Some (Bounds bounds)"
    by (simp add: de_kwargs_def)
  moreover have "map_of de_kwargs ''x0'' = None" "map_of de_kwargs ''constraints'' = None"
    "map_of de_kwargs ''jac'' = None"
    by (simp_all add: de_kwargs_def)
  ultimately show ?thesis
    using search_tags_False [of sp] by (simp add: kwargs_tags_de)
qed




section \<open>Properties of the evaluator\<close>

subsection \<open>Clamping\<close>

lemma clamp_idem: "clamp bs (clamp bs vs) = clamp bs vs"
  by (induction bs vs rule: clamp.induct) (auto simp: min_def max_def)

lemma length_clamp: "length (clamp bs vs) = length vs"
  by (induction bs vs rule: clamp.induct) simp_all

lemma clamp_within_bounds:
  "list_all (\<lambda>(lo, hi). lo \<le> hi) bs \<Longrightarrow> length vs = length bs \<Longrightarrow> within_bounds bs (clamp bs vs)"
  by (induction bs vs rule: clamp.induct) (auto simp: min_def max_def)

lemma within_bounds_clamp: "within_bounds bs vs \<Longrightarrow> clamp bs vs = vs"
  by (induction bs vs rule: within_bounds.induct) (auto simp: min_def max_def)

lemma within_bounds_length: "within_bounds bs vs \<Longrightarrow> length vs = length bs"
  by (induction bs vs rule: within_bounds.induct) auto

lemma bounds_ordered: "list_all (\<lambda>(lo, hi). lo \<le> hi) bounds"
  by (simp add: bounds_def)

subsection \<open>Clamping before evaluation\<close>

lemma resolve_clamp: "resolve M (clamp bounds c) = resolve M c"
  unfolding resolve_def clamp_idem by (rule refl)

lemma resolve_error: "resolve M c = Inl e \<Longrightarrow> e = InvalidParameter"
proof -
  have loop: "loop_resolver pass tol n k m = Inl e \<Longrightarrow> e = InvalidParameter" for pass tol n k m
    by (induction n arbitrary: k m) (auto split: option.splits if_splits)
  assume "resolve M c = Inl e"
  then show ?thesis
    unfolding resolve_def by (auto split: list.splits dest: loop)
qed

text \<open>
  Claim C4, on the evaluator as the specification describes it. A vector of eight entries
  is never rejected for its bounds: in every mode the evaluation is that of the clamped
  vector, which is within the declared bounds.
\<close>

theorem evaluate_clamps:
  assumes "length c = length bounds"
  shows "evaluate M c md = evaluate M (clamp bounds c) md
   \<and> within_bounds bounds (clamp bounds c)
   \<and> evaluate M c md \<noteq> Inl BoundViolation"
proof -
  have "evaluate M c md = evaluate M (clamp bounds c) md"
    unfolding evaluate_def resolve_clamp clamp_idem by (rule refl)
  moreover have "within_bounds bounds (clamp bounds c)"
    using bounds_ordered assms by (rule clamp_within_bounds)
  moreover have "evaluate M c md \<noteq> Inl BoundViolation"
  proof
    assume "evaluate M c md = Inl BoundViolation"
    then have "resolve M c = Inl BoundViolation"
      by (auto simp: evaluate_def split: sum.splits mode.splits)
    from resolve_error [OF this] show False by simp
  qed
  ultimately show ?thesis by simp
qed

subsection \<open>The penalised objective\<close>

lemma penalty_feasible: "feasible ms \<Longrightarrow> penalty w ms = 0"
  by (induction ms) (simp_all add: penalty_def feasible_def)

lemma sum_sq_nonneg: "0 \<le> sum_list (map (\<lambda>x::real. (min x 0)\<^sup>2) ms)"
  by (induction ms) simp_all

lemma sum_sq_pos: "\<not> feasible ms \<Longrightarrow> 0 < sum_list (map (\<lambda>x::real. (min x 0)\<^sup>2) ms)"
proof (induction ms)
  case Nil
  then show ?case by (simp add: feasible_def)
next
  case (Cons x xs)
  show ?case
  proof (cases "x < 0")
    case True
    then have "0 < x\<^sup>2" by simp
    moreover from True have "(min x 0)\<^sup>2 = x\<^sup>2" by simp
    ultimately have "0 < (min x 0)\<^sup>2 + sum_list (map (\<lambda>x::real. (min x 0)\<^sup>2) xs)"
      using sum_sq_nonneg [of xs] by (simp only: add_pos_nonneg)
    then show ?thesis by simp
  next
    case False
    with Cons.prems have "\<not> feasible xs" by (simp add: feasible_def)
    from Cons.IH [OF this] show ?thesis
      by (simp add: add_nonneg_pos)
  qed
qed

lemma penalty_infeasible: "0 < w \<Longrightarrow> \<not> feasible ms \<Longrightarrow> 0 < penalty w ms"
  by (simp add: penalty_def sum_sq_pos)


text \<open>
  Claim C7, on the evaluator as the specification describes it. Whenever the design point
  of a vector resolves, with margins \<open>ms\<close>, the modes \<open>Obj\<close> and \<open>ObjP\<close> both return a
  scalar; the two are equal when every margin is non-negative, and \<open>ObjP\<close> is strictly
  larger when some margin is negative. The penalty weight is positive.
\<close>

theorem penalty_correctness:
  assumes "0 < penalty_weight M" and "evaluate M c Const = Inr (Margins ms)"
  shows "\<exists>m p. evaluate M c Obj = Inr (Scalar m) \<and> evaluate M c ObjP = Inr (Scalar p)
           \<and> (if feasible ms then p = m else m < p)"
proof -
  from assms(2) obtain dp where dp: "resolve M c = Inr dp" and ms: "ms = margins M (clamp bounds c) dp"
    by (auto simp: evaluate_def split: sum.splits)
  have obj: "evaluate M c Obj = Inr (Scalar (total_mass dp))"
    using dp by (simp add: evaluate_def)
  have objp: "evaluate M c ObjP = Inr (Scalar (total_mass dp + penalty (penalty_weight M) ms))"
    using dp ms by (simp add: evaluate_def)
  show ?thesis
  proof (cases "feasible ms")
    case True
    with obj objp show ?thesis by (simp add: penalty_feasible)
  next
    case False
    with penalty_infeasible [OF assms(1) False] obj objp show ?thesis by simp
  qed
qed

subsection \<open>The sample model, evaluated\<close>

lemma loop_resolver_unfold:
  "0 < n \<Longrightarrow> loop_resolver pass tol n k m =
     (case pass (hover_thrust m) of
        None \<Rightarrow> Inl InvalidParameter
      | Some m' \<Rightarrow>
          if \<bar>m' - m\<bar> / \<bar>m\<bar> < tol
          then Inr \<lparr>total_mass = m', thrust = hover_thrust m, iterations = Suc k, converged = True\<rparr>
          else loop_resolver pass tol (n - 1) (Suc k) m')"
  by (cases n) (auto split: option.splits)

lemma clamp_parameters: "clamp bounds parameters = [0.33, 3.2, 1.2, 1, 1.2, 1, 1, 0.1]"
  by (simp add: bounds_def parameters_def beta_pro_def k_os_def k_ND_def k_mot_def
        k_speed_mot_def k_mb_def k_vb_def k_D_def)

lemmas sample_simps =
  sample_model_def loop_resolver_unfold hover_thrust_def M_pay_def MTOW_def
  N_pro_def N_pro_arm_def N_arm_def

lemma resolve_sample_parameters:
  "resolve sample_model parameters =
     Inr \<lparr>total_mass = 4688611 / 12500, thrust = 2188611 / 5000, iterations = 2, converged = True\<rparr>"
  by (simp add: resolve_def clamp_parameters sample_simps)

lemma resolve_sample_lower:
  "resolve sample_model (map fst bounds) =
     Inr \<lparr>total_mass = 16177670341 / 80000000, thrust = 7377670341 / 32000000, iterations = 3, converged = True\<rparr>"
  by (simp add: resolve_def bounds_def sample_simps)

text \<open>
  The initial vector of the notebook is outside the bounds; its evaluation is that of its
  clamped image.
\<close>

theorem evaluate_clamps_witness:
  "length parameters = length bounds
   \<and> \<not> within_bounds bounds parameters
   \<and> within_bounds bounds (clamp bounds parameters)
   \<and> evaluate sample_model parameters Obj = Inr (Scalar (4688611 / 12500))
   \<and> evaluate sample_model (clamp bounds parameters) Obj = Inr (Scalar (4688611 / 12500))"
proof -
  have len: "length parameters = length bounds"
    by (simp add: parameters_def bounds_def)
  have "evaluate sample_model parameters Obj = Inr (Scalar (4688611 / 12500))"
    by (simp add: evaluate_def resolve_sample_parameters)
  with len evaluate_clamps [OF len, of sample_model Obj] parameters_below_bounds show ?thesis
    by simp
qed

text \<open>
  Under the sample model the initial vector exceeds the mass budget and is penalised; the
  lower corner of the bounds is feasible and is not.
\<close>

theorem penalty_correctness_witness:
  "0 < penalty_weight sample_model
   \<and> evaluate sample_model parameters Const = Inr (Margins [- (188611 / 12500)])
   \<and> evaluate sample_model parameters Obj = Inr (Scalar (4688611 / 12500))
   \<and> evaluate sample_model parameters ObjP = Inr (Scalar (2845928750368611 / 12500))
   \<and> evaluate sample_model (map fst bounds) Const = Inr (Margins [12622329659 / 80000000])
   \<and> evaluate sample_model (map fst bounds) Obj = Inr (Scalar (16177670341 / 80000000))
   \<and> evaluate sample_model (map fst bounds) ObjP = Inr (Scalar (16177670341 / 80000000))"
proof -
  have w: "0 < penalty_weight sample_model"
    by (simp add: sample_model_def)
  have c1: "evaluate sample_model parameters Const = Inr (Margins [- (188611 / 12500)])"
    by (simp add: evaluate_def resolve_sample_parameters) (simp add: sample_model_def MTOW_def)
  have c2: "evaluate sample_model (map fst bounds) Const = Inr (Margins [12622329659 / 80000000])"
    by (simp add: evaluate_def resolve_sample_lower) (simp add: sample_model_def MTOW_def)
  have o1: "evaluate sample_model parameters Obj = Inr (Scalar (4688611 / 12500))"
    by (simp add: evaluate_def resolve_sample_parameters)
  have p1: "evaluate sample_model parameters ObjP = Inr (Scalar (2845928750368611 / 12500))"
    by (simp add: evaluate_def resolve_sample_parameters)
       (simp add: sample_model_def MTOW_def penalty_def power2_eq_square)
  have o2: "evaluate sample_model (map fst bounds) Obj = Inr (Scalar (16177670341 / 80000000))"
    by (simp add: evaluate_def resolve_sample_lower)
  have "feasible [12622329659 / 80000000]"
    by (simp add: feasible_def)
  with penalty_correctness [OF w c2] o2
  have p2: "evaluate sample_model (map fst bounds) ObjP = Inr (Scalar (16177670341 / 80000000))"
    by auto
  from w c1 o1 p1 c2 o2 p2 show ?thesis by blast
qed


end
